theory Spec2Isabelle
  imports Complex_Main
begin

section \<open>JavaScript numbers\<close>

text \<open>
  A TypeScript \<open>number\<close> is modelled as an exact rational, extended with the three special
  values that the arithmetic of the scorer can produce: \<open>Infinity\<close>, \<open>-Infinity\<close> and
  \<open>NaN\<close>. Division by zero, the comparisons and \<open>Math.min\<close>/\<open>Math.max\<close>/\<open>Math.round\<close>
  follow ECMAScript on these values. Two things are abstracted. The rounding of binary64 is
  not modelled: a finite result is the exact quotient, product or sum, which is the
  binary64 result whenever that is exact, as it is for dyadic values; elsewhere the two may
  differ in the last place, and a total that lies on a threshold or on a half may then be
  rounded or classified the other way. The sign of zero is not modelled: there is one
  zero, which divides like \<open>+0\<close>. The evaluations in the sections on the rounded score
  and on the high-risk alert use dyadic values, which binary64 computes exactly.
\<close>

datatype jsnum = Fin rat | PosInf | NegInf | NaN

text \<open>The relational operator \<open>a < b\<close>; \<open>a > b\<close> is \<open>js_lt b a\<close>. Any comparison with NaN is false.\<close>

fun js_lt :: "jsnum \<Rightarrow> jsnum \<Rightarrow> bool" where
  "js_lt NaN b = False"
| "js_lt a NaN = False"
| "js_lt (Fin x) (Fin y) = (x < y)"
| "js_lt (Fin x) PosInf = True"
| "js_lt (Fin x) NegInf = False"
| "js_lt PosInf b = False"
| "js_lt NegInf (Fin y) = True"
| "js_lt NegInf PosInf = True"
| "js_lt NegInf NegInf = False"

definition js_gt :: "jsnum \<Rightarrow> jsnum \<Rightarrow> bool" where
  "js_gt a b = js_lt b a"

fun js_add :: "jsnum \<Rightarrow> jsnum \<Rightarrow> jsnum" where
  "js_add NaN b = NaN"
| "js_add a NaN = NaN"
| "js_add (Fin x) (Fin y) = Fin (x + y)"
| "js_add (Fin x) PosInf = PosInf"
| "js_add (Fin x) NegInf = NegInf"
| "js_add PosInf (Fin y) = PosInf"
| "js_add PosInf PosInf = PosInf"
| "js_add PosInf NegInf = NaN"
| "js_add NegInf (Fin y) = NegInf"
| "js_add NegInf PosInf = NaN"
| "js_add NegInf NegInf = NegInf"

fun js_sub :: "jsnum \<Rightarrow> jsnum \<Rightarrow> jsnum" where
  "js_sub NaN b = NaN"
| "js_sub a NaN = NaN"
| "js_sub (Fin x) (Fin y) = Fin (x - y)"
| "js_sub (Fin x) PosInf = NegInf"
| "js_sub (Fin x) NegInf = PosInf"
| "js_sub PosInf (Fin y) = PosInf"
| "js_sub PosInf PosInf = NaN"
| "js_sub PosInf NegInf = PosInf"
| "js_sub NegInf (Fin y) = NegInf"
| "js_sub NegInf PosInf = NegInf"
| "js_sub NegInf NegInf = NaN"

fun js_mul :: "jsnum \<Rightarrow> jsnum \<Rightarrow> jsnum" where
  "js_mul NaN b = NaN"
| "js_mul a NaN = NaN"
| "js_mul (Fin x) (Fin y) = Fin (x * y)"
| "js_mul (Fin x) PosInf = (if x = 0 then NaN else if 0 < x then PosInf else NegInf)"
| "js_mul (Fin x) NegInf = (if x = 0 then NaN else if 0 < x then NegInf else PosInf)"
| "js_mul PosInf (Fin y) = (if y = 0 then NaN else if 0 < y then PosInf else NegInf)"
| "js_mul PosInf PosInf = PosInf"
| "js_mul PosInf NegInf = NegInf"
| "js_mul NegInf (Fin y) = (if y = 0 then NaN else if 0 < y then NegInf else PosInf)"
| "js_mul NegInf PosInf = NegInf"
| "js_mul NegInf NegInf = PosInf"

text \<open>
  Division never raises in JavaScript: a non-zero number over zero is an infinity, and
  zero over zero is NaN.
\<close>

fun js_div :: "jsnum \<Rightarrow> jsnum \<Rightarrow> jsnum" where
  "js_div NaN b = NaN"
| "js_div a NaN = NaN"
| "js_div (Fin x) (Fin y) =
     (if y = 0 then (if x = 0 then NaN else if 0 < x then PosInf else NegInf)
      else Fin (x / y))"
| "js_div (Fin x) PosInf = Fin 0"
| "js_div (Fin x) NegInf = Fin 0"
| "js_div PosInf (Fin y) = (if 0 \<le> y then PosInf else NegInf)"
| "js_div PosInf PosInf = NaN"
| "js_div PosInf NegInf = NaN"
| "js_div NegInf (Fin y) = (if 0 \<le> y then NegInf else PosInf)"
| "js_div NegInf PosInf = NaN"
| "js_div NegInf NegInf = NaN"

text \<open>\<open>Math.min\<close> and \<open>Math.max\<close> of two arguments: NaN if either argument is NaN.\<close>

fun Math_min :: "jsnum \<Rightarrow> jsnum \<Rightarrow> jsnum" where
  "Math_min NaN b = NaN"
| "Math_min a NaN = NaN"
| "Math_min (Fin x) (Fin y) = Fin (min x y)"
| "Math_min (Fin x) PosInf = Fin x"
| "Math_min (Fin x) NegInf = NegInf"
| "Math_min PosInf b = b"
| "Math_min NegInf b = NegInf"

fun Math_max :: "jsnum \<Rightarrow> jsnum \<Rightarrow> jsnum" where
  "Math_max NaN b = NaN"
| "Math_max a NaN = NaN"
| "Math_max (Fin x) (Fin y) = Fin (max x y)"
| "Math_max (Fin x) PosInf = PosInf"
| "Math_max (Fin x) NegInf = Fin x"
| "Math_max PosInf b = PosInf"
| "Math_max NegInf b = b"

text \<open>\<open>Math.round\<close>: the nearest integer, halves rounded towards \<open>+Infinity\<close>.\<close>

fun Math_round :: "jsnum \<Rightarrow> jsnum" where
  "Math_round (Fin x) = Fin (of_int \<lfloor>x + 1 / 2\<rfloor>)"
| "Math_round PosInf = PosInf"
| "Math_round NegInf = NegInf"
| "Math_round NaN = NaN"

section \<open>Data model (\<open>types/customer.ts\<close>)\<close>

datatype Status = Review | Approved | Rejected

datatype RiskLevel = Low | Medium | High

record CustomerData =
  customerId :: string
  name :: string
  monthlyIncome :: jsnum
  monthlyExpenses :: jsnum
  creditScore :: jsnum
  outstandingLoans :: jsnum
  loanRepaymentHistory :: "jsnum list"
  accountBalance :: jsnum
  status :: Status

record Factors =
  creditScoreImpact :: jsnum
  repaymentHistoryImpact :: jsnum
  loanToIncomeRatioImpact :: jsnum

text \<open>The \<open>customerId\<close> field of a \<open>RiskScore\<close> is named \<open>rs_customerId\<close> here.\<close>

record RiskScore =
  rs_customerId :: string
  score :: jsnum
  level :: RiskLevel
  factors :: Factors

text \<open>A thrown \<open>Error\<close>, with its message.\<close>

datatype error = Error string

section \<open>The scorer (\<open>utils/riskScoring.ts\<close>)\<close>

definition CREDIT_SCORE_WEIGHT :: jsnum where
  "CREDIT_SCORE_WEIGHT = Fin 40"

definition REPAYMENT_HISTORY_WEIGHT :: jsnum where
  "REPAYMENT_HISTORY_WEIGHT = Fin 30"

definition LOAN_RATIO_WEIGHT :: jsnum where
  "LOAN_RATIO_WEIGHT = Fin 30"

definition DEFAULT_LOAN_PERIOD_MONTHS :: jsnum where
  "DEFAULT_LOAN_PERIOD_MONTHS = Fin 24"

definition RISK_THRESHOLDS_LOW :: jsnum where
  "RISK_THRESHOLDS_LOW = Fin 30"

definition RISK_THRESHOLDS_MEDIUM :: jsnum where
  "RISK_THRESHOLDS_MEDIUM = Fin 60"

text \<open>
  The three un-rounded components and the level, as the body of \<open>calculateRiskScore\<close>
  computes them (lines 37 to 66), each as a function of the values it reads.
\<close>

definition creditScoreImpact_raw :: "jsnum \<Rightarrow> jsnum" where
  "creditScoreImpact_raw cs =
     (let minCreditScore = Fin 300;
          maxCreditScore = Fin 850;
          normalizedCreditScore =
            Math_max (Fin 0) (Math_min (Fin 1)
              (js_div (js_sub maxCreditScore cs) (js_sub maxCreditScore minCreditScore)))
      in js_mul normalizedCreditScore CREDIT_SCORE_WEIGHT)"

definition repaymentHistoryImpact_raw :: "jsnum list \<Rightarrow> jsnum" where
  "repaymentHistoryImpact_raw h =
     (let repaymentHistoryLength = length h
      in if repaymentHistoryLength = 0
         then js_div REPAYMENT_HISTORY_WEIGHT (Fin 2)
         else js_mul
                (js_div (Fin (of_nat (length (filter (\<lambda>payment. payment = Fin 0) h))))
                        (Fin (of_nat repaymentHistoryLength)))
                REPAYMENT_HISTORY_WEIGHT)"

definition loanToIncomeRatioImpact_raw :: "jsnum \<Rightarrow> jsnum \<Rightarrow> jsnum \<Rightarrow> jsnum" where
  "loanToIncomeRatioImpact_raw loans income loanPeriodMonths =
     (let monthlyLoanBurden = js_div loans loanPeriodMonths;
          loanToIncomeRatio = js_div monthlyLoanBurden income;
          normalizedRatio = Math_min (Fin 1) (js_div loanToIncomeRatio (Fin (1 / 2)))
      in js_mul normalizedRatio LOAN_RATIO_WEIGHT)"

definition riskLevel_of :: "jsnum \<Rightarrow> RiskLevel" where
  "riskLevel_of totalScore =
     (if js_lt totalScore RISK_THRESHOLDS_LOW then Low
      else if js_lt totalScore RISK_THRESHOLDS_MEDIUM then Medium
      else High)"

text \<open>The default value of the optional parameter \<open>loanPeriodMonths\<close>.\<close>

definition loanPeriodMonths_arg :: "jsnum option \<Rightarrow> jsnum" where
  "loanPeriodMonths_arg lp = (case lp of None \<Rightarrow> DEFAULT_LOAN_PERIOD_MONTHS | Some p \<Rightarrow> p)"

definition totalScore_raw :: "CustomerData \<Rightarrow> jsnum \<Rightarrow> jsnum" where
  "totalScore_raw customer loanPeriodMonths =
     js_add (js_add (creditScoreImpact_raw (creditScore customer))
                    (repaymentHistoryImpact_raw (loanRepaymentHistory customer)))
            (loanToIncomeRatioImpact_raw (outstandingLoans customer) (monthlyIncome customer)
               loanPeriodMonths)"

text \<open>
  \<open>calculateRiskScore(customer, loanPeriodMonths = DEFAULT_LOAN_PERIOD_MONTHS)\<close>. The optional
  second argument is an option: \<open>None\<close> is the call with one argument. The three
  \<open>throw\<close> statements are the \<open>Inl\<close> results, in the order of the source.
\<close>

definition calculateRiskScore :: "CustomerData \<Rightarrow> jsnum option \<Rightarrow> error + RiskScore" where
  "calculateRiskScore customer lp =
     (let loanPeriodMonths = loanPeriodMonths_arg lp
      in if js_lt (creditScore customer) (Fin 300) \<or> js_gt (creditScore customer) (Fin 850)
         then Inl (Error ''Credit score must be between 300 and 850'')
         else if js_lt (monthlyIncome customer) (Fin 0)
         then Inl (Error ''Monthly income cannot be negative'')
         else if js_lt (outstandingLoans customer) (Fin 0)
         then Inl (Error ''Outstanding loans cannot be negative'')
         else
           (let creditScoreImpact = creditScoreImpact_raw (creditScore customer);
                repaymentHistoryImpact = repaymentHistoryImpact_raw (loanRepaymentHistory customer);
                loanToIncomeRatioImpact =
                  loanToIncomeRatioImpact_raw (outstandingLoans customer) (monthlyIncome customer)
                    loanPeriodMonths;
                totalScore =
                  js_add (js_add creditScoreImpact repaymentHistoryImpact) loanToIncomeRatioImpact;
                riskLevel = riskLevel_of totalScore
            in Inr \<lparr> rs_customerId = customerId customer,
                     score = Math_round totalScore,
                     level = riskLevel,
                     factors = \<lparr> creditScoreImpact = Math_round creditScoreImpact,
                                 repaymentHistoryImpact = Math_round repaymentHistoryImpact,
                                 loanToIncomeRatioImpact = Math_round loanToIncomeRatioImpact \<rparr> \<rparr>))"

text \<open>
  \<open>calculateAllRiskScores\<close> is \<open>customers.map(customer => calculateRiskScore(customer))\<close>:
  the callback passes one argument, so the loan period is the default. An exception thrown
  by the callback leaves \<open>map\<close> at once, so the first failing customer decides the result.
\<close>

fun calculateAllRiskScores :: "CustomerData list \<Rightarrow> error + RiskScore list" where
  "calculateAllRiskScores [] = Inr []"
| "calculateAllRiskScores (customer # customers) =
     (case calculateRiskScore customer None of
        Inl e \<Rightarrow> Inl e
      | Inr r \<Rightarrow> (case calculateAllRiskScores customers of
                    Inl e \<Rightarrow> Inl e
                  | Inr rs \<Rightarrow> Inr (r # rs)))"

section \<open>The status form of the workflow page (\<open>WorkflowManagement\<close>)\<close>

text \<open>
  What \<open>handleUpdateStatus\<close> does to the outside world, in the order of the calls:
  the three kinds of notification, the console line, and the two calls that close the form.
  \<open>notification_warning\<close> is the high-risk alert; it carries the customer's name and
  the score shown in its text.
\<close>

datatype effect =
    notification_warning string jsnum
  | console_log string
  | notification_success string Status
  | notification_error
  | form_resetFields
  | setIsModalVisible bool

text \<open>
  The outcome of awaiting the \<open>updateCustomerStatus\<close> property, a
  \<open>Promise<boolean>\<close>: fulfilled with a boolean, or rejected (the \<open>catch\<close> branch).
\<close>

datatype promise_outcome = Fulfilled bool | Threw

record StatusForm =
  form_status :: Status
  form_notes :: string

text \<open>
  \<open>handleUpdateStatus(values)\<close>, with the three values its closure reads as arguments:
  \<open>riskScores\<close> (the memoised \<open>calculateAllRiskScores(customerData)\<close>),
  \<open>currentCustomer\<close> (null until a row is opened) and the \<open>updateCustomerStatus\<close>
  property.
\<close>

definition handleUpdateStatus ::
  "RiskScore list \<Rightarrow> CustomerData option \<Rightarrow> (string \<Rightarrow> Status \<Rightarrow> promise_outcome) \<Rightarrow>
   StatusForm \<Rightarrow> effect list" where
  "handleUpdateStatus riskScores currentCustomer updateCustomerStatus values =
     (case currentCustomer of
        None \<Rightarrow> []
      | Some cur \<Rightarrow>
          (case updateCustomerStatus (customerId cur) (form_status values) of
             Threw \<Rightarrow> [notification_error]
           | Fulfilled success \<Rightarrow>
               if success then
                 (let customerRisk = find (\<lambda>s. rs_customerId s = customerId cur) riskScores
                  in (case customerRisk of
                        None \<Rightarrow> []
                      | Some risk \<Rightarrow>
                          if js_gt (score risk) (Fin 70) \<and> form_status values = Approved
                          then [notification_warning (name cur) (score risk),
                                console_log (customerId cur)]
                          else [])
                     @ [notification_success (name cur) (form_status values),
                        form_resetFields,
                        setIsModalVisible False])
               else [notification_error]))"

fun is_alert :: "effect \<Rightarrow> bool" where
  "is_alert (notification_warning n s) = True"
| "is_alert e = False"

definition alert_count :: "effect list \<Rightarrow> nat" where
  "alert_count es = length (filter is_alert es)"

section \<open>Vocabulary of the statements\<close>

text \<open>\<open>Number.isFinite\<close>.\<close>

fun isFinite :: "jsnum \<Rightarrow> bool" where
  "isFinite (Fin x) = True"
| "isFinite v = False"

text \<open>
  A valid call of the scorer: every number read is finite, the credit score lies in
  [300, 850], the income is positive, the outstanding loans are not negative and the loan
  period is positive. A zero income is not valid: the quotient by it is not a score.
\<close>

definition valid_profile :: "CustomerData \<Rightarrow> jsnum option \<Rightarrow> bool" where
  "valid_profile customer lp \<longleftrightarrow>
     isFinite (creditScore customer) \<and> isFinite (monthlyIncome customer) \<and>
     isFinite (outstandingLoans customer) \<and> isFinite (loanPeriodMonths_arg lp) \<and>
     \<not> js_lt (creditScore customer) (Fin 300) \<and> \<not> js_gt (creditScore customer) (Fin 850) \<and>
     js_gt (monthlyIncome customer) (Fin 0) \<and>
     \<not> js_lt (outstandingLoans customer) (Fin 0) \<and>
     js_gt (loanPeriodMonths_arg lp) (Fin 0)"

text \<open>The credit-score component in the words of the specification.\<close>

definition clamp :: "rat \<Rightarrow> rat \<Rightarrow> rat \<Rightarrow> rat" where
  "clamp x lo hi = (if x < lo then lo else if hi < x then hi else x)"

definition spec_creditScoreImpact :: "rat \<Rightarrow> rat" where
  "spec_creditScoreImpact cs = clamp ((850 - cs) / 550) 0 1 * 40"

text \<open>A number that is an integer between two bounds.\<close>

definition int_between :: "int \<Rightarrow> int \<Rightarrow> jsnum \<Rightarrow> bool" where
  "int_between lo hi v =
     (case v of Fin x \<Rightarrow> x = of_int \<lfloor>x\<rfloor> \<and> of_int lo \<le> x \<and> x \<le> of_int hi | _ \<Rightarrow> False)"

text \<open>The order on finite numbers: \<open>a <= b\<close> with both finite.\<close>

definition fin_le :: "jsnum \<Rightarrow> jsnum \<Rightarrow> bool" where
  "fin_le a b = (case (a, b) of (Fin x, Fin y) \<Rightarrow> x \<le> y | _ \<Rightarrow> False)"

text \<open>Sample customers, used to evaluate the scorer and the form at concrete inputs.\<close>

definition sample_customer :: CustomerData where
  "sample_customer =
     \<lparr> customerId = ''CUST001'', name = ''Alice'', monthlyIncome = Fin 4000,
       monthlyExpenses = Fin 2500, creditScore = Fin 620, outstandingLoans = Fin 24000,
       loanRepaymentHistory = [Fin 1, Fin 1, Fin 0, Fin 1, Fin 1, Fin 1],
       accountBalance = Fin 10000, status = Review \<rparr>"

section \<open>The scorer on finite numbers\<close>

lemmas weight_defs = CREDIT_SCORE_WEIGHT_def REPAYMENT_HISTORY_WEIGHT_def LOAN_RATIO_WEIGHT_def
  DEFAULT_LOAN_PERIOD_MONTHS_def RISK_THRESHOLDS_LOW_def RISK_THRESHOLDS_MEDIUM_def

lemma creditScoreImpact_raw_Fin:
  "creditScoreImpact_raw (Fin x) = Fin (max 0 (min 1 ((850 - x) / 550)) * 40)"
  by (simp add: creditScoreImpact_raw_def weight_defs)

lemma repaymentHistoryImpact_raw_Fin:
  "repaymentHistoryImpact_raw h =
     Fin (if h = [] then 15
          else of_nat (length (filter (\<lambda>payment. payment = Fin 0) h)) / of_nat (length h) * 30)"
  by (simp add: repaymentHistoryImpact_raw_def weight_defs)

lemma loanToIncomeRatioImpact_raw_Fin:
  "i \<noteq> 0 \<Longrightarrow> p \<noteq> 0 \<Longrightarrow>
   loanToIncomeRatioImpact_raw (Fin l) (Fin i) (Fin p) = Fin (min 1 (l / p / i / (1 / 2)) * 30)"
  by (simp add: loanToIncomeRatioImpact_raw_def weight_defs)

lemma calculateRiskScore_Inr:
  assumes "calculateRiskScore customer lp = Inr r"
  shows "r = \<lparr> rs_customerId = customerId customer,
               score = Math_round (totalScore_raw customer (loanPeriodMonths_arg lp)),
               level = riskLevel_of (totalScore_raw customer (loanPeriodMonths_arg lp)),
               factors = \<lparr> creditScoreImpact = Math_round (creditScoreImpact_raw (creditScore customer)),
                           repaymentHistoryImpact =
                             Math_round (repaymentHistoryImpact_raw (loanRepaymentHistory customer)),
                           loanToIncomeRatioImpact =
                             Math_round (loanToIncomeRatioImpact_raw (outstandingLoans customer)
                               (monthlyIncome customer) (loanPeriodMonths_arg lp)) \<rparr> \<rparr>"
  using assms by (simp add: calculateRiskScore_def totalScore_raw_def Let_def split: if_splits)

lemma calculateRiskScore_passes:
  assumes "\<not> js_lt (creditScore customer) (Fin 300)" and "\<not> js_gt (creditScore customer) (Fin 850)"
    and "\<not> js_lt (monthlyIncome customer) (Fin 0)" and "\<not> js_lt (outstandingLoans customer) (Fin 0)"
  shows "calculateRiskScore customer lp =
     Inr \<lparr> rs_customerId = customerId customer,
               score = Math_round (totalScore_raw customer (loanPeriodMonths_arg lp)),
               level = riskLevel_of (totalScore_raw customer (loanPeriodMonths_arg lp)),
               factors = \<lparr> creditScoreImpact = Math_round (creditScoreImpact_raw (creditScore customer)),
                           repaymentHistoryImpact =
                             Math_round (repaymentHistoryImpact_raw (loanRepaymentHistory customer)),
                           loanToIncomeRatioImpact =
                             Math_round (loanToIncomeRatioImpact_raw (outstandingLoans customer)
                               (monthlyIncome customer) (loanPeriodMonths_arg lp)) \<rparr> \<rparr>"
  using assms by (simp add: calculateRiskScore_def totalScore_raw_def Let_def)

lemma isFinite_iff: "isFinite v \<longleftrightarrow> (\<exists>x. v = Fin x)"
  by (cases v) simp_all

lemma valid_profileD:
  assumes "valid_profile customer lp"
  obtains cs i l p where "creditScore customer = Fin cs" "monthlyIncome customer = Fin i"
    "outstandingLoans customer = Fin l" "loanPeriodMonths_arg lp = Fin p"
    "300 \<le> cs" "cs \<le> 850" "0 < i" "0 \<le> l" "0 < p"
proof -
  from assms obtain cs i l p where e: "creditScore customer = Fin cs" "monthlyIncome customer = Fin i"
    "outstandingLoans customer = Fin l" "loanPeriodMonths_arg lp = Fin p"
    unfolding valid_profile_def isFinite_iff by blast
  with assms have "300 \<le> cs" "cs \<le> 850" "0 < i" "0 \<le> l" "0 < p"
    by (simp_all add: valid_profile_def js_gt_def)
  with e show thesis by (rule that)
qed

lemma valid_profile_passes:
  assumes "valid_profile customer lp"
  shows "\<not> js_lt (creditScore customer) (Fin 300)" "\<not> js_gt (creditScore customer) (Fin 850)"
    "\<not> js_lt (monthlyIncome customer) (Fin 0)" "\<not> js_lt (outstandingLoans customer) (Fin 0)"
  using assms by (auto simp: valid_profile_def js_gt_def isFinite_iff)

section \<open>Bounds of the components\<close>

lemma credit_bounds:
  "0 \<le> max 0 (min 1 ((850 - x) / 550)) * (40::rat) \<and> max 0 (min 1 ((850 - x) / 550)) * (40::rat) \<le> 40"
  by (auto simp: max_def min_def)

lemma history_bounds:
  assumes "h \<noteq> []"
  shows "0 \<le> (of_nat (length (filter P h)) / of_nat (length h) * 30 :: rat) \<and>
     (of_nat (length (filter P h)) / of_nat (length h) * 30 :: rat) \<le> 30"
proof -
  define q :: rat where "q = of_nat (length (filter P h)) / of_nat (length h)"
  have "length (filter P h) \<le> length h" by simp
  then have "(of_nat (length (filter P h)) :: rat) \<le> of_nat (length h)"
    by (simp only: of_nat_le_iff)
  moreover have "(0::rat) < of_nat (length h)" using assms by simp
  ultimately have "q \<le> 1" unfolding q_def by (simp add: divide_le_eq_1)
  moreover have "0 \<le> q" unfolding q_def by simp
  ultimately have "0 \<le> q * 30 \<and> q * 30 \<le> 30" by simp
  then show ?thesis unfolding q_def .
qed

lemma loan_bounds:
  "0 \<le> l \<Longrightarrow> 0 < i \<Longrightarrow> 0 < p \<Longrightarrow>
   0 \<le> min 1 (l / p / i / (1 / 2)) * (30::rat) \<and> min 1 (l / p / i / (1 / 2)) * (30::rat) \<le> 30"
  by (auto simp: min_def)

lemma round_bounds:
  "0 \<le> x \<Longrightarrow> x \<le> of_int n \<Longrightarrow> 0 \<le> \<lfloor>x + 1 / 2 :: rat\<rfloor> \<and> \<lfloor>x + 1 / 2\<rfloor> \<le> n"
  by (auto simp: floor_le_iff le_floor_iff)

lemma int_between_round:
  assumes "0 \<le> x" and "x \<le> of_int n"
  shows "int_between 0 n (Math_round (Fin x))"
proof -
  from round_bounds [OF assms] have "0 \<le> \<lfloor>x + 1 / 2\<rfloor>" and "\<lfloor>x + 1 / 2\<rfloor> \<le> n" by simp_all
  then have "(0::rat) \<le> of_int \<lfloor>x + 1 / 2\<rfloor>" and "(of_int \<lfloor>x + 1 / 2\<rfloor> :: rat) \<le> of_int n"
    by (simp_all only: of_int_0_le_iff of_int_le_iff)
  then show ?thesis by (simp add: int_between_def)
qed

lemma valid_components:
  assumes "valid_profile customer lp"
  obtains a b c where
    "creditScoreImpact_raw (creditScore customer) = Fin a" "0 \<le> a" "a \<le> 40"
    "repaymentHistoryImpact_raw (loanRepaymentHistory customer) = Fin b" "0 \<le> b" "b \<le> 30"
    "loanToIncomeRatioImpact_raw (outstandingLoans customer) (monthlyIncome customer)
       (loanPeriodMonths_arg lp) = Fin c" "0 \<le> c" "c \<le> 30"
    "totalScore_raw customer (loanPeriodMonths_arg lp) = Fin (a + b + c)"
proof -
  from assms obtain cs i l p where f: "creditScore customer = Fin cs" "monthlyIncome customer = Fin i"
    "outstandingLoans customer = Fin l" "loanPeriodMonths_arg lp = Fin p"
    and r: "300 \<le> cs" "cs \<le> 850" "0 < i" "0 \<le> l" "0 < p"
    by (rule valid_profileD)
  define a where "a = max 0 (min 1 ((850 - cs) / 550)) * 40"
  define b where "b = (if loanRepaymentHistory customer = [] then 15
          else of_nat (length (filter (\<lambda>payment. payment = Fin 0) (loanRepaymentHistory customer)))
               / of_nat (length (loanRepaymentHistory customer)) * (30::rat))"
  define c where "c = min 1 (l / p / i / (1 / 2)) * 30"
  have ea: "creditScoreImpact_raw (creditScore customer) = Fin a"
    unfolding a_def f by (rule creditScoreImpact_raw_Fin)
  have eb: "repaymentHistoryImpact_raw (loanRepaymentHistory customer) = Fin b"
    unfolding b_def by (rule repaymentHistoryImpact_raw_Fin)
  have ec: "loanToIncomeRatioImpact_raw (outstandingLoans customer) (monthlyIncome customer)
       (loanPeriodMonths_arg lp) = Fin c"
    unfolding c_def f using r by (intro loanToIncomeRatioImpact_raw_Fin) simp_all
  have ba: "0 \<le> a \<and> a \<le> 40" unfolding a_def by (rule credit_bounds)
  have bb: "0 \<le> b \<and> b \<le> 30"
  proof (cases "loanRepaymentHistory customer = []")
    case True
    then show ?thesis by (simp add: b_def)
  next
    case False
    then show ?thesis using history_bounds [OF False] by (simp add: b_def)
  qed
  have bc: "0 \<le> c \<and> c \<le> 30" unfolding c_def using r by (intro loan_bounds) simp_all
  have et: "totalScore_raw customer (loanPeriodMonths_arg lp) = Fin (a + b + c)"
    by (simp add: totalScore_raw_def ea eb ec)
  from ea ba eb bb ec bc et show thesis by (intro that) simp_all
qed

section \<open>Range of the score and of the factors\<close>

text \<open>
  Claim C7. For every valid profile the scorer returns a score that is an integer in
  [0, 100], and each rounded factor is an integer within its weight: the credit-score
  impact in [0, 40], the repayment-history impact in [0, 30] and the loan-to-income
  impact in [0, 30].
\<close>

theorem score_and_factors_bounded:
  assumes "valid_profile customer lp"
  shows "\<exists>r. calculateRiskScore customer lp = Inr r \<and>
           int_between 0 100 (score r) \<and>
           int_between 0 40 (creditScoreImpact (factors r)) \<and>
           int_between 0 30 (repaymentHistoryImpact (factors r)) \<and>
           int_between 0 30 (loanToIncomeRatioImpact (factors r))"
proof -
  from assms obtain a b c where
    ea: "creditScoreImpact_raw (creditScore customer) = Fin a" and ba: "0 \<le> a" "a \<le> 40" and
    eb: "repaymentHistoryImpact_raw (loanRepaymentHistory customer) = Fin b" and bb: "0 \<le> b" "b \<le> 30" and
    ec: "loanToIncomeRatioImpact_raw (outstandingLoans customer) (monthlyIncome customer)
       (loanPeriodMonths_arg lp) = Fin c" and bc: "0 \<le> c" "c \<le> 30" and
    et: "totalScore_raw customer (loanPeriodMonths_arg lp) = Fin (a + b + c)"
    by (rule valid_components)
  have bt: "0 \<le> a + b + c" "a + b + c \<le> of_int 100" using ba bb bc by simp_all
  have "int_between 0 100 (Math_round (Fin (a + b + c)))" using bt by (rule int_between_round)
  moreover have "int_between 0 40 (Math_round (Fin a))" using ba by (intro int_between_round) simp_all
  moreover have "int_between 0 30 (Math_round (Fin b))" using bb by (intro int_between_round) simp_all
  moreover have "int_between 0 30 (Math_round (Fin c))" using bc by (intro int_between_round) simp_all
  ultimately show ?thesis
    unfolding calculateRiskScore_passes [OF valid_profile_passes [OF assms]] ea eb ec et
    by simp
qed

lemma valid_sample: "valid_profile sample_customer None"
  by (simp add: valid_profile_def sample_customer_def loanPeriodMonths_arg_def js_gt_def weight_defs)

theorem score_and_factors_bounded_witness:
  "valid_profile sample_customer None \<and>
   (\<exists>r. calculateRiskScore sample_customer None = Inr r \<and>
           int_between 0 100 (score r) \<and>
           int_between 0 40 (creditScoreImpact (factors r)) \<and>
           int_between 0 30 (repaymentHistoryImpact (factors r)) \<and>
           int_between 0 30 (loanToIncomeRatioImpact (factors r)))"
  using score_and_factors_bounded [of sample_customer None] valid_sample by simp

section \<open>Evaluating the scorer\<close>

lemmas scorer_defs = calculateRiskScore_def creditScoreImpact_raw_def
  repaymentHistoryImpact_raw_def loanToIncomeRatioImpact_raw_def riskLevel_of_def
  loanPeriodMonths_arg_def js_gt_def weight_defs

lemma floor_rat_numeral:
  "\<lfloor>numeral a / numeral b :: rat\<rfloor> = numeral a div numeral b"
  using floor_divide_of_int_eq [of "numeral a" "numeral b", where ?'a = rat] by simp

lemma floor_rat_neg_numeral:
  "\<lfloor>- (numeral a / numeral b) :: rat\<rfloor> = - numeral a div numeral b"
  using floor_divide_of_int_eq [of "- numeral a" "numeral b", where ?'a = rat] by simp

lemmas eval_simps = scorer_defs floor_rat_numeral floor_rat_neg_numeral

section \<open>A zero income\<close>

text \<open>
  Claim C2. A profile with \<open>monthlyIncome = 0\<close> should make the scorer fail with an error
  of its own and never return NaN or Infinity. The scorer has no such check: the income
  test is \<open>monthlyIncome < 0\<close>, zero passes it, and the quotient is taken. With no
  outstanding loans the quotient is \<open>0 / 0\<close>: the call returns a score whose \<open>score\<close>
  and \<open>loanToIncomeRatioImpact\<close> are NaN and whose level is High, since both comparisons of
  NaN with the thresholds are false.
\<close>

theorem zero_income_returns_NaN:
  "calculateRiskScore (sample_customer\<lparr>monthlyIncome := Fin 0, outstandingLoans := Fin 0\<rparr>) None =
     Inr \<lparr> rs_customerId = ''CUST001'', score = NaN, level = High,
           factors = \<lparr> creditScoreImpact = Fin 17, repaymentHistoryImpact = Fin 5,
                       loanToIncomeRatioImpact = NaN \<rparr> \<rparr>"
  by (simp add: eval_simps sample_customer_def)

section \<open>Validation of the input\<close>






section \<open>An empty repayment history\<close>

text \<open>
  Claim C6. For every valid profile with an empty \<open>loanRepaymentHistory\<close>, the repayment
  component before rounding is exactly 15, this is the value that enters the total, and
  the factor returned is 15 as well.
\<close>

theorem empty_history_neutral:
  assumes "valid_profile customer lp" and "loanRepaymentHistory customer = []"
  shows "repaymentHistoryImpact_raw (loanRepaymentHistory customer) = Fin 15 \<and>
         totalScore_raw customer (loanPeriodMonths_arg lp) =
           js_add (js_add (creditScoreImpact_raw (creditScore customer)) (Fin 15))
             (loanToIncomeRatioImpact_raw (outstandingLoans customer) (monthlyIncome customer)
                (loanPeriodMonths_arg lp)) \<and>
         (\<exists>r. calculateRiskScore customer lp = Inr r \<and>
              repaymentHistoryImpact (factors r) = Fin 15)"
proof -
  have h: "repaymentHistoryImpact_raw (loanRepaymentHistory customer) = Fin 15"
    using assms(2) by (simp add: repaymentHistoryImpact_raw_Fin)
  show ?thesis
    unfolding calculateRiskScore_passes [OF valid_profile_passes [OF assms(1)]]
    by (simp add: h totalScore_raw_def floor_rat_numeral)
qed

theorem empty_history_neutral_witness:
  "valid_profile (sample_customer\<lparr>loanRepaymentHistory := []\<rparr>) None \<and>
   loanRepaymentHistory (sample_customer\<lparr>loanRepaymentHistory := []\<rparr>) = [] \<and>
   repaymentHistoryImpact_raw (loanRepaymentHistory (sample_customer\<lparr>loanRepaymentHistory := []\<rparr>))
     = Fin 15 \<and>
   (\<exists>r. calculateRiskScore (sample_customer\<lparr>loanRepaymentHistory := []\<rparr>) None = Inr r \<and>
        repaymentHistoryImpact (factors r) = Fin 15)"
proof -
  have v: "valid_profile (sample_customer\<lparr>loanRepaymentHistory := []\<rparr>) None"
    by (simp add: valid_profile_def sample_customer_def loanPeriodMonths_arg_def js_gt_def
        weight_defs)
  have e: "loanRepaymentHistory (sample_customer\<lparr>loanRepaymentHistory := []\<rparr>) = []" by simp
  from empty_history_neutral [OF v e] v e show ?thesis by blast
qed

section \<open>The credit-score component\<close>

lemma floor_rat_one_numeral:
  "\<lfloor>1 / numeral b :: rat\<rfloor> = 1 div numeral b"
  using floor_divide_of_int_eq [of 1 "numeral b", where ?'a = rat] by simp

lemma clamp_eq: "clamp x 0 1 = max 0 (min 1 x)"
  by (simp add: clamp_def max_def min_def)

lemma valid_profile_creditScore_update:
  assumes "valid_profile customer lp" and "300 \<le> x" and "x \<le> 850"
  shows "valid_profile (customer\<lparr>creditScore := Fin x\<rparr>) lp"
  using assms by (simp add: valid_profile_def js_gt_def)

text \<open>
  Claim C8. The credit-score component of the scorer is the linear inversion of the
  specification, \<open>clamp((850 - creditScore) / 550, 0, 1) * 40\<close>, on every finite credit
  score. It is exactly 0 at 850 and exactly 40 at 300, and so is the factor returned for
  every valid profile whose credit score is 850, respectively 300.
\<close>

theorem creditScoreImpact_linear_inversion:
  assumes "valid_profile customer lp"
  shows "(\<forall>x. creditScoreImpact_raw (Fin x) = Fin (spec_creditScoreImpact x)) \<and>
         creditScoreImpact_raw (Fin 850) = Fin 0 \<and>
         creditScoreImpact_raw (Fin 300) = Fin 40 \<and>
         (\<exists>r. calculateRiskScore (customer\<lparr>creditScore := Fin 850\<rparr>) lp = Inr r \<and>
              creditScoreImpact (factors r) = Fin 0) \<and>
         (\<exists>r. calculateRiskScore (customer\<lparr>creditScore := Fin 300\<rparr>) lp = Inr r \<and>
              creditScoreImpact (factors r) = Fin 40)"
proof -
  have g: "creditScoreImpact_raw (Fin x) = Fin (spec_creditScoreImpact x)" for x
    by (simp add: creditScoreImpact_raw_Fin spec_creditScoreImpact_def clamp_eq)
  have hi: "creditScoreImpact_raw (Fin 850) = Fin 0"
    by (simp add: creditScoreImpact_raw_Fin)
  have lo: "creditScoreImpact_raw (Fin 300) = Fin 40"
    by (simp add: creditScoreImpact_raw_Fin)
  have v850: "valid_profile (customer\<lparr>creditScore := Fin 850\<rparr>) lp"
    using assms by (rule valid_profile_creditScore_update) simp_all
  have v300: "valid_profile (customer\<lparr>creditScore := Fin 300\<rparr>) lp"
    using assms by (rule valid_profile_creditScore_update) simp_all
  have r850: "\<exists>r. calculateRiskScore (customer\<lparr>creditScore := Fin 850\<rparr>) lp = Inr r \<and>
              creditScoreImpact (factors r) = Fin 0"
    unfolding calculateRiskScore_passes [OF valid_profile_passes [OF v850]]
    by (simp add: hi floor_rat_one_numeral)
  have r300: "\<exists>r. calculateRiskScore (customer\<lparr>creditScore := Fin 300\<rparr>) lp = Inr r \<and>
              creditScoreImpact (factors r) = Fin 40"
    unfolding calculateRiskScore_passes [OF valid_profile_passes [OF v300]]
    by (simp add: lo floor_rat_numeral)
  from g hi lo r850 r300 show ?thesis by blast
qed

theorem creditScoreImpact_linear_inversion_witness:
  "valid_profile sample_customer None \<and>
   creditScoreImpact_raw (Fin 620) = Fin (spec_creditScoreImpact 620) \<and>
   (\<exists>r. calculateRiskScore (sample_customer\<lparr>creditScore := Fin 850\<rparr>) None = Inr r \<and>
        creditScoreImpact (factors r) = Fin 0) \<and>
   (\<exists>r. calculateRiskScore (sample_customer\<lparr>creditScore := Fin 300\<rparr>) None = Inr r \<and>
        creditScoreImpact (factors r) = Fin 40)"
  using creditScoreImpact_linear_inversion [OF valid_sample] valid_sample by blast

section \<open>The loan-to-income component\<close>

lemma round_mono: "x \<le> y \<Longrightarrow> \<lfloor>x + 1 / 2 :: rat\<rfloor> \<le> \<lfloor>y + 1 / 2\<rfloor>"
  by (intro floor_mono) simp

lemma loan_mono:
  assumes "0 < i" and "0 < p" and "l1 \<le> l2"
  shows "min 1 (l1 / p / i / (1 / 2)) * (30::rat) \<le> min 1 (l2 / p / i / (1 / 2)) * 30"
proof -
  have "l1 / p \<le> l2 / p" using assms by (simp add: divide_right_mono)
  then have "l1 / p / i \<le> l2 / p / i" using assms by (simp add: divide_right_mono)
  then have "l1 / p / i / (1 / 2) \<le> l2 / p / i / (1 / 2)" by (rule divide_right_mono) simp
  then have "min 1 (l1 / p / i / (1 / 2)) \<le> min 1 (l2 / p / i / (1 / 2))"
    by (simp add: min_def)
  then show ?thesis by simp
qed

text \<open>
  Claim C9. Take a valid profile and a second one that differs from it only in having
  outstanding loans that are at least as large. Then the loan-to-income impact of the
  second is at least that of the first, before rounding and in the factor returned.
\<close>

theorem loanToIncomeRatioImpact_monotone:
  assumes "valid_profile customer lp" and "outstandingLoans customer = Fin l1" and "l1 \<le> l2"
  shows "fin_le (loanToIncomeRatioImpact_raw (Fin l1) (monthlyIncome customer) (loanPeriodMonths_arg lp))
                (loanToIncomeRatioImpact_raw (Fin l2) (monthlyIncome customer) (loanPeriodMonths_arg lp)) \<and>
         (\<exists>r1 r2. calculateRiskScore customer lp = Inr r1 \<and>
                 calculateRiskScore (customer\<lparr>outstandingLoans := Fin l2\<rparr>) lp = Inr r2 \<and>
                 fin_le (loanToIncomeRatioImpact (factors r1)) (loanToIncomeRatioImpact (factors r2)))"
proof -
  from assms(1) obtain cs i l p where f: "creditScore customer = Fin cs" "monthlyIncome customer = Fin i"
    "outstandingLoans customer = Fin l" "loanPeriodMonths_arg lp = Fin p"
    and r: "300 \<le> cs" "cs \<le> 850" "0 < i" "0 \<le> l" "0 < p"
    by (rule valid_profileD)
  from f assms(2) have ll: "l = l1" by simp
  define a where "a = min 1 (l1 / p / i / (1 / 2)) * 30"
  define b where "b = min 1 (l2 / p / i / (1 / 2)) * 30"
  have ab: "a \<le> b" unfolding a_def b_def using r(3) r(5) assms(3) by (rule loan_mono)
  have ea: "loanToIncomeRatioImpact_raw (Fin l1) (Fin i) (Fin p) = Fin a"
    unfolding a_def using r by (intro loanToIncomeRatioImpact_raw_Fin) simp_all
  have eb: "loanToIncomeRatioImpact_raw (Fin l2) (Fin i) (Fin p) = Fin b"
    unfolding b_def using r by (intro loanToIncomeRatioImpact_raw_Fin) simp_all
  have v2: "valid_profile (customer\<lparr>outstandingLoans := Fin l2\<rparr>) lp"
    using assms(1) assms(3) r ll f by (simp add: valid_profile_def js_gt_def)
  have raw: "fin_le (loanToIncomeRatioImpact_raw (Fin l1) (monthlyIncome customer) (loanPeriodMonths_arg lp))
                (loanToIncomeRatioImpact_raw (Fin l2) (monthlyIncome customer) (loanPeriodMonths_arg lp))"
    using ab by (simp add: f ea eb fin_le_def)
  have "fin_le (Math_round (Fin a)) (Math_round (Fin b))"
    using round_mono [OF ab] by (simp add: fin_le_def)
  then have "\<exists>r1 r2. calculateRiskScore customer lp = Inr r1 \<and>
                 calculateRiskScore (customer\<lparr>outstandingLoans := Fin l2\<rparr>) lp = Inr r2 \<and>
                 fin_le (loanToIncomeRatioImpact (factors r1)) (loanToIncomeRatioImpact (factors r2))"
    unfolding calculateRiskScore_passes [OF valid_profile_passes [OF assms(1)]]
      calculateRiskScore_passes [OF valid_profile_passes [OF v2]]
    by (simp add: f(1,2,4) assms(2) ea eb)
  with raw show ?thesis by blast
qed

theorem loanToIncomeRatioImpact_monotone_witness:
  "valid_profile sample_customer None \<and> outstandingLoans sample_customer = Fin 24000 \<and>
   (24000::rat) \<le> 30000 \<and>
   (\<exists>r1 r2. calculateRiskScore sample_customer None = Inr r1 \<and>
           calculateRiskScore (sample_customer\<lparr>outstandingLoans := Fin 30000\<rparr>) None = Inr r2 \<and>
           fin_le (loanToIncomeRatioImpact (factors r1)) (loanToIncomeRatioImpact (factors r2)))"
proof -
  have l: "outstandingLoans sample_customer = Fin 24000" by (simp add: sample_customer_def)
  have c: "(24000::rat) \<le> 30000" by simp
  from loanToIncomeRatioImpact_monotone [OF valid_sample l c] valid_sample l c
  show ?thesis by blast
qed

section \<open>Fields that the scorer does not read\<close>

text \<open>
  Claim C10. Two customers that agree on \<open>customerId\<close>, \<open>monthlyIncome\<close>,
  \<open>outstandingLoans\<close>, \<open>creditScore\<close> and \<open>loanRepaymentHistory\<close>, scored with the same
  loan period, get the same result, whatever their \<open>name\<close>, \<open>monthlyExpenses\<close>,
  \<open>accountBalance\<close> and \<open>status\<close> are. The result is the whole outcome: the same
  error, or the same score, level and factors.
\<close>

theorem scoring_noninterference:
  assumes "customerId a = customerId b" and "monthlyIncome a = monthlyIncome b"
    and "outstandingLoans a = outstandingLoans b" and "creditScore a = creditScore b"
    and "loanRepaymentHistory a = loanRepaymentHistory b"
  shows "calculateRiskScore a lp = calculateRiskScore b lp"
  using assms by (simp add: calculateRiskScore_def)

theorem scoring_noninterference_witness:
  "calculateRiskScore sample_customer None =
   calculateRiskScore (sample_customer\<lparr>name := ''Bob'', monthlyExpenses := Fin 1,
      accountBalance := Fin (- 3), status := Approved\<rparr>) None \<and>
   sample_customer \<noteq> sample_customer\<lparr>name := ''Bob'', monthlyExpenses := Fin 1,
      accountBalance := Fin (- 3), status := Approved\<rparr>"
  using scoring_noninterference [of sample_customer
      "sample_customer\<lparr>name := ''Bob'', monthlyExpenses := Fin 1,
      accountBalance := Fin (- 3), status := Approved\<rparr>" None]
  by (simp add: sample_customer_def)

section \<open>Batch scoring\<close>

lemma calculateAllRiskScores_Inr_iff:
  "calculateAllRiskScores customers = Inr rs \<longleftrightarrow>
     map (\<lambda>c. calculateRiskScore c None) customers = map Inr rs"
proof (induction customers arbitrary: rs)
  case Nil
  then show ?case by auto
next
  case (Cons c customers)
  show ?case
  proof (cases "calculateRiskScore c None")
    case (Inl e)
    then show ?thesis by (cases rs) auto
  next
    case (Inr r)
    show ?thesis
    proof (cases "calculateAllRiskScores customers")
      case (Inl e)
      with Cons.IH have "\<And>rs'. map (\<lambda>c. calculateRiskScore c None) customers \<noteq> map Inr rs'"
        by (metis sum.distinct(1))
      with Inl Inr show ?thesis by (cases rs) auto
    next
      case tl: (Inr rs')
      with Cons.IH [of rs'] have m: "map (\<lambda>c. calculateRiskScore c None) customers = map Inr rs'"
        by simp
      show ?thesis using Inr tl m by (cases rs) (auto simp: inj_map_eq_map [OF inj_Inr])
    qed
  qed
qed

lemma calculateAllRiskScores_Inl_iff:
  "calculateAllRiskScores customers = Inl e \<longleftrightarrow>
     (\<exists>ok bad rest. customers = ok @ bad # rest \<and>
        (\<forall>c\<in>set ok. \<exists>r. calculateRiskScore c None = Inr r) \<and>
        calculateRiskScore bad None = Inl e)"
proof (induction customers)
  case Nil
  then show ?case by simp
next
  case (Cons c customers)
  show ?case
  proof (cases "calculateRiskScore c None")
    case (Inl e')
    show ?thesis
    proof
      assume "calculateAllRiskScores (c # customers) = Inl e"
      with Inl have "e' = e" by simp
      with Inl have "c # customers = [] @ c # customers \<and>
        (\<forall>x\<in>set []. \<exists>r. calculateRiskScore x None = Inr r) \<and> calculateRiskScore c None = Inl e"
        by simp
      then show "\<exists>ok bad rest. c # customers = ok @ bad # rest \<and>
        (\<forall>c\<in>set ok. \<exists>r. calculateRiskScore c None = Inr r) \<and>
        calculateRiskScore bad None = Inl e" by blast
    next
      assume "\<exists>ok bad rest. c # customers = ok @ bad # rest \<and>
        (\<forall>c\<in>set ok. \<exists>r. calculateRiskScore c None = Inr r) \<and>
        calculateRiskScore bad None = Inl e"
      then obtain ok bad rest where s: "c # customers = ok @ bad # rest"
        and a: "\<forall>c\<in>set ok. \<exists>r. calculateRiskScore c None = Inr r"
        and b: "calculateRiskScore bad None = Inl e" by blast
      have "ok = []"
      proof (cases ok)
        case Nil
        then show ?thesis .
      next
        case (Cons x xs)
        with s have "x = c" by simp
        with Cons a Inl show ?thesis by auto
      qed
      with s have "bad = c" by simp
      with b Inl show "calculateAllRiskScores (c # customers) = Inl e" by simp
    qed
  next
    case (Inr r)
    have step: "calculateAllRiskScores (c # customers) = Inl e \<longleftrightarrow>
                calculateAllRiskScores customers = Inl e"
      using Inr by (simp split: sum.splits)
    show ?thesis
    proof
      assume "calculateAllRiskScores (c # customers) = Inl e"
      with step Cons.IH obtain ok bad rest where s: "customers = ok @ bad # rest"
        and a: "\<forall>c\<in>set ok. \<exists>r. calculateRiskScore c None = Inr r"
        and b: "calculateRiskScore bad None = Inl e" by blast
      from s a b Inr have "c # customers = (c # ok) @ bad # rest \<and>
        (\<forall>x\<in>set (c # ok). \<exists>r. calculateRiskScore x None = Inr r) \<and>
        calculateRiskScore bad None = Inl e" by simp
      then show "\<exists>ok bad rest. c # customers = ok @ bad # rest \<and>
        (\<forall>c\<in>set ok. \<exists>r. calculateRiskScore c None = Inr r) \<and>
        calculateRiskScore bad None = Inl e" by blast
    next
      assume "\<exists>ok bad rest. c # customers = ok @ bad # rest \<and>
        (\<forall>c\<in>set ok. \<exists>r. calculateRiskScore c None = Inr r) \<and>
        calculateRiskScore bad None = Inl e"
      then obtain ok bad rest where s: "c # customers = ok @ bad # rest"
        and a: "\<forall>c\<in>set ok. \<exists>r. calculateRiskScore c None = Inr r"
        and b: "calculateRiskScore bad None = Inl e" by blast
      from s b Inr obtain ok' where o: "ok = c # ok'" by (cases ok) auto
      with s a have "customers = ok' @ bad # rest"
        and "\<forall>c\<in>set ok'. \<exists>r. calculateRiskScore c None = Inr r" by simp_all
      with b Cons.IH have "calculateAllRiskScores customers = Inl e" by blast
      with step show "calculateAllRiskScores (c # customers) = Inl e" by simp
    qed
  qed
qed

text \<open>
  A failure is not isolated: in a batch of two, the first customer has a score of its own
  (37, Medium), the second has a credit score of 200, and the batch as a whole is the
  error of the second, with no score for the first.
\<close>

theorem batch_aborts_on_first_failure:
  "calculateRiskScore sample_customer None =
     Inr \<lparr> rs_customerId = ''CUST001'', score = Fin 37, level = Medium,
           factors = \<lparr> creditScoreImpact = Fin 17, repaymentHistoryImpact = Fin 5,
                       loanToIncomeRatioImpact = Fin 15 \<rparr> \<rparr> \<and>
   calculateAllRiskScores
     [sample_customer, sample_customer\<lparr>customerId := ''CUST002'', creditScore := Fin 200\<rparr>] =
     Inl (Error ''Credit score must be between 300 and 850'')"
  by (simp add: eval_simps sample_customer_def)

text \<open>
  Claim C4, as the code has it. Batch scoring returns a list of scores exactly when every
  profile scores on its own, and then the list has one score per profile, in the order of
  the profiles, each the single-profile score with the default loan period. It fails with
  an error exactly when some profile fails, and the error is that of the first failing
  profile.
\<close>

theorem calculateAllRiskScores_all_or_nothing:
  "(calculateAllRiskScores customers = Inr rs \<longleftrightarrow>
      map (\<lambda>c. calculateRiskScore c None) customers = map Inr rs) \<and>
   (calculateAllRiskScores customers = Inl e \<longleftrightarrow>
      (\<exists>ok bad rest. customers = ok @ bad # rest \<and>
         (\<forall>c\<in>set ok. \<exists>r. calculateRiskScore c None = Inr r) \<and>
         calculateRiskScore bad None = Inl e))"
  using calculateAllRiskScores_Inr_iff calculateAllRiskScores_Inl_iff by blast

theorem calculateAllRiskScores_all_or_nothing_witness:
  "calculateAllRiskScores
     [sample_customer, sample_customer\<lparr>customerId := ''CUST002'', creditScore := Fin 850\<rparr>] =
     Inr [\<lparr> rs_customerId = ''CUST001'', score = Fin 37, level = Medium,
             factors = \<lparr> creditScoreImpact = Fin 17, repaymentHistoryImpact = Fin 5,
                         loanToIncomeRatioImpact = Fin 15 \<rparr> \<rparr>,
          \<lparr> rs_customerId = ''CUST002'', score = Fin 20, level = Low,
             factors = \<lparr> creditScoreImpact = Fin 0, repaymentHistoryImpact = Fin 5,
                         loanToIncomeRatioImpact = Fin 15 \<rparr> \<rparr>] \<and>
   calculateAllRiskScores
     [sample_customer, sample_customer\<lparr>monthlyIncome := Fin (- 1)\<rparr>, sample_customer] =
     Inl (Error ''Monthly income cannot be negative'')"
proof -
  have m: "map (\<lambda>c. calculateRiskScore c None)
      [sample_customer, sample_customer\<lparr>customerId := ''CUST002'', creditScore := Fin 850\<rparr>] =
     map Inr [\<lparr> rs_customerId = ''CUST001'', score = Fin 37, level = Medium,
             factors = \<lparr> creditScoreImpact = Fin 17, repaymentHistoryImpact = Fin 5,
                         loanToIncomeRatioImpact = Fin 15 \<rparr> \<rparr>,
          \<lparr> rs_customerId = ''CUST002'', score = Fin 20, level = Low,
             factors = \<lparr> creditScoreImpact = Fin 0, repaymentHistoryImpact = Fin 5,
                         loanToIncomeRatioImpact = Fin 15 \<rparr> \<rparr>]"
    by (simp add: eval_simps floor_rat_one_numeral sample_customer_def)
  have "[sample_customer, sample_customer\<lparr>monthlyIncome := Fin (- 1)\<rparr>, sample_customer] =
          [sample_customer] @ sample_customer\<lparr>monthlyIncome := Fin (- 1)\<rparr> # [sample_customer] \<and>
        (\<forall>c\<in>set [sample_customer]. \<exists>r. calculateRiskScore c None = Inr r) \<and>
        calculateRiskScore (sample_customer\<lparr>monthlyIncome := Fin (- 1)\<rparr>) None =
          Inl (Error ''Monthly income cannot be negative'')"
    by (simp add: eval_simps sample_customer_def)
  then have f: "\<exists>ok bad rest.
        [sample_customer, sample_customer\<lparr>monthlyIncome := Fin (- 1)\<rparr>, sample_customer] =
          ok @ bad # rest \<and>
        (\<forall>c\<in>set ok. \<exists>r. calculateRiskScore c None = Inr r) \<and>
        calculateRiskScore bad None = Inl (Error ''Monthly income cannot be negative'')"
    by blast
  from m f
    calculateAllRiskScores_all_or_nothing
      [of "[sample_customer, sample_customer\<lparr>customerId := ''CUST002'', creditScore := Fin 850\<rparr>]"]
    calculateAllRiskScores_all_or_nothing
      [of "[sample_customer, sample_customer\<lparr>monthlyIncome := Fin (- 1)\<rparr>, sample_customer]"]
  show ?thesis by blast
qed

section \<open>The level and the rounded score\<close>

text \<open>
  Claim C3. The level should be a function of the returned score: Medium at score 30, High
  at score 60. The scorer takes the level from the total before rounding and the score
  after it. A total of 59.6875 is returned as score 60 with level Medium, and a total of
  29.53125 as score 30 with level Low. All the numbers of both computations are dyadic, so
  binary64 computes them exactly.
\<close>

theorem level_not_a_function_of_score:
  "calculateRiskScore
     (sample_customer\<lparr>creditScore := Fin 300, monthlyIncome := Fin 64,
        outstandingLoans := Fin 120, loanRepaymentHistory := []\<rparr>) None =
     Inr \<lparr> rs_customerId = ''CUST001'', score = Fin 60, level = Medium,
           factors = \<lparr> creditScoreImpact = Fin 40, repaymentHistoryImpact = Fin 15,
                       loanToIncomeRatioImpact = Fin 5 \<rparr> \<rparr> \<and>
   calculateRiskScore
     (sample_customer\<lparr>creditScore := Fin 850, monthlyIncome := Fin 128,
        outstandingLoans := Fin 1128, loanRepaymentHistory := [Fin 0, Fin 1, Fin 1, Fin 1]\<rparr>) None =
     Inr \<lparr> rs_customerId = ''CUST001'', score = Fin 30, level = Low,
           factors = \<lparr> creditScoreImpact = Fin 0, repaymentHistoryImpact = Fin 8,
                       loanToIncomeRatioImpact = Fin 22 \<rparr> \<rparr>"
  by (simp add: eval_simps floor_rat_one_numeral sample_customer_def)

section \<open>The high-risk alert of the status form\<close>

text \<open>
  Claim C1. Approving a customer whose level is High should raise exactly one alert
  before success is reported. The form tests \<open>customerRisk.score > 70\<close>, while the level
  is High from a total of 60. A customer with total 66.25 has score 66 and level High;
  approving it, with the update succeeding, reports success and raises no alert. At score
  85 the same call raises the alert, before the success notification. The numbers of both
  computations are dyadic, so binary64 computes them exactly.
\<close>

theorem high_level_approved_without_alert:
  "calculateAllRiskScores
     [sample_customer\<lparr>creditScore := Fin 300, monthlyIncome := Fin 16,
        outstandingLoans := Fin 72, loanRepaymentHistory := []\<rparr>] =
     Inr [\<lparr> rs_customerId = ''CUST001'', score = Fin 66, level = High,
             factors = \<lparr> creditScoreImpact = Fin 40, repaymentHistoryImpact = Fin 15,
                         loanToIncomeRatioImpact = Fin 11 \<rparr> \<rparr>] \<and>
   handleUpdateStatus
     [\<lparr> rs_customerId = ''CUST001'', score = Fin 66, level = High,
             factors = \<lparr> creditScoreImpact = Fin 40, repaymentHistoryImpact = Fin 15,
                         loanToIncomeRatioImpact = Fin 11 \<rparr> \<rparr>]
     (Some (sample_customer\<lparr>creditScore := Fin 300, monthlyIncome := Fin 16,
        outstandingLoans := Fin 72, loanRepaymentHistory := []\<rparr>))
     (\<lambda>cid newStatus. Fulfilled True)
     \<lparr> form_status = Approved, form_notes = ''ok'' \<rparr> =
     [notification_success ''Alice'' Approved, form_resetFields, setIsModalVisible False] \<and>
   alert_count
     [notification_success ''Alice'' Approved, form_resetFields, setIsModalVisible False] = 0 \<and>
   calculateAllRiskScores
     [sample_customer\<lparr>creditScore := Fin 300, outstandingLoans := Fin 48000,
        loanRepaymentHistory := []\<rparr>] =
     Inr [\<lparr> rs_customerId = ''CUST001'', score = Fin 85, level = High,
             factors = \<lparr> creditScoreImpact = Fin 40, repaymentHistoryImpact = Fin 15,
                         loanToIncomeRatioImpact = Fin 30 \<rparr> \<rparr>] \<and>
   handleUpdateStatus
     [\<lparr> rs_customerId = ''CUST001'', score = Fin 85, level = High,
             factors = \<lparr> creditScoreImpact = Fin 40, repaymentHistoryImpact = Fin 15,
                         loanToIncomeRatioImpact = Fin 30 \<rparr> \<rparr>]
     (Some (sample_customer\<lparr>creditScore := Fin 300, outstandingLoans := Fin 48000,
        loanRepaymentHistory := []\<rparr>))
     (\<lambda>cid newStatus. Fulfilled True)
     \<lparr> form_status = Approved, form_notes = ''ok'' \<rparr> =
     [notification_warning ''Alice'' (Fin 85), console_log ''CUST001'',
      notification_success ''Alice'' Approved, form_resetFields, setIsModalVisible False]"
  by (simp add: eval_simps floor_rat_one_numeral sample_customer_def handleUpdateStatus_def
      alert_count_def)

end
